theory Spec2Isabelle
  imports Main
begin

section \<open>Evaluation model\<close>

text \<open>
  The library is JavaScript: a call may read and change the outside world, it may throw,
  and \<^verbatim>\<open>left(e)\<close> or \<^verbatim>\<open>right(a)\<close> builds a new object each time, whose identity \<^verbatim>\<open>===\<close>
  observes. The embedding keeps the three visible.

  \<^item> The state is a \<open>store\<close>: the next free object address and the world that the
    caller's own effects act on (of any type \<open>'w\<close>).
  \<^item> A call either returns a value or throws one: a \<open>completion\<close>.
  \<^item> A JavaScript expression of type \<open>A\<close> is a computation \<open>('w, 'x, 'a) js\<close>: given the
    store it produces a completion and the store after it. A callback \<^verbatim>\<open>(a) => ...\<close> is a
    function into computations. A thunk \<^verbatim>\<open>() => body\<close> is the computation of its body, run
    each time the thunk is invoked; building a thunk runs nothing.
\<close>

record 'w store =
  next_addr :: nat
  world :: 'w

datatype ('x, 'a) completion = Return 'a | Throw 'x

type_synonym ('w, 'x, 'a) js = "'w store \<Rightarrow> ('x, 'a) completion \<times> 'w store"

text \<open>\<^verbatim>\<open>return a\<close>: the value, and the store untouched.\<close>

definition ret :: "'a \<Rightarrow> ('w, 'x, 'a) js" where
  "ret a = (\<lambda>s. (Return a, s))"

text \<open>
  Sequencing: evaluate \<open>m\<close>, then the rest with its value. A throw in \<open>m\<close> skips the rest
  and keeps the store as the throw left it.
\<close>

definition bind :: "('w, 'x, 'a) js \<Rightarrow> ('a \<Rightarrow> ('w, 'x, 'b) js) \<Rightarrow> ('w, 'x, 'b) js" where
  "bind m k = (\<lambda>s. case m s of
                     (Return a, s') \<Rightarrow> k a s'
                   | (Throw x, s') \<Rightarrow> (Throw x, s'))"

text \<open>\<^verbatim>\<open>try { m } catch (e) { h(e) }\<close>.\<close>

definition try_catch :: "('w, 'x, 'a) js \<Rightarrow> ('x \<Rightarrow> ('w, 'x, 'a) js) \<Rightarrow> ('w, 'x, 'a) js" where
  "try_catch m h = (\<lambda>s. case m s of
                          (Return a, s') \<Rightarrow> (Return a, s')
                        | (Throw x, s') \<Rightarrow> h x s')"

text \<open>
  An object literal: the object built at the next free address, which is then used up.
\<close>

definition alloc :: "(nat \<Rightarrow> 'o) \<Rightarrow> ('w, 'x, 'o) js" where
  "alloc mk = (\<lambda>s. (Return (mk (next_addr s)), s\<lparr>next_addr := Suc (next_addr s)\<rparr>))"


section \<open>Either.js\<close>

subsection \<open>Model and constructors\<close>

text \<open>
  An \<^verbatim>\<open>Either\<close> is an object \<^verbatim>\<open>{ _tag: 'Left', left: e }\<close> or \<^verbatim>\<open>{ _tag: 'Right', right: a }\<close>.
  The library never writes to one after building it, so an object is its address and its
  payload: \<open>LeftAt r e\<close> is the \<^verbatim>\<open>Left\<close> object at address \<open>r\<close> holding \<open>e\<close>.
\<close>

datatype ('e, 'a) either = LeftAt nat 'e | RightAt nat 'a

fun addr :: "('e, 'a) either \<Rightarrow> nat" where
  "addr (LeftAt r e) = r"
| "addr (RightAt r a) = r"

definition left :: "'e \<Rightarrow> ('w, 'x, ('e, 'a) either) js" where
  "left e = alloc (\<lambda>r. LeftAt r e)"

definition right :: "'a \<Rightarrow> ('w, 'x, ('e, 'a) either) js" where
  "right a = alloc (\<lambda>r. RightAt r a)"

fun isLeft :: "('e, 'a) either \<Rightarrow> bool" where
  "isLeft (LeftAt r e) = True"
| "isLeft (RightAt r a) = False"

definition isRight :: "('e, 'a) either \<Rightarrow> bool" where
  "isRight ma = (if isLeft ma then False else True)"

subsection \<open>Functor, Apply, Monad\<close>

text \<open>
  \<^verbatim>\<open>map = f => fa => isLeft(fa) ? fa : right(f(fa.right))\<close>. A \<^verbatim>\<open>Left\<close> is handed back
  as the object it is, at its own address; only the \<^verbatim>\<open>Right\<close> branch calls \<open>f\<close> and
  allocates.
\<close>

fun mapE :: "('a \<Rightarrow> ('w, 'x, 'b) js) \<Rightarrow> ('e, 'a) either \<Rightarrow> ('w, 'x, ('e, 'b) either) js" where
  "mapE f (LeftAt r e) = ret (LeftAt r e)"
| "mapE f (RightAt r a) = bind (f a) right"

text \<open>
  \<^verbatim>\<open>ap = fa => fab => isLeft(fab) ? fab : isLeft(fa) ? fa : right(fab.right(fa.right))\<close>.
\<close>

fun ap :: "('e, 'a) either \<Rightarrow> ('e, 'a \<Rightarrow> ('w, 'x, 'b) js) either \<Rightarrow> ('w, 'x, ('e, 'b) either) js" where
  "ap fa (LeftAt r e) = ret (LeftAt r e)"
| "ap (LeftAt r e) (RightAt q g) = ret (LeftAt r e)"
| "ap (RightAt r a) (RightAt q g) = bind (g a) right"

text \<open>\<^verbatim>\<open>chain = f => ma => isLeft(ma) ? ma : f(ma.right)\<close>.\<close>

fun chain :: "('a \<Rightarrow> ('w, 'x, ('e, 'b) either) js) \<Rightarrow> ('e, 'a) either \<Rightarrow> ('w, 'x, ('e, 'b) either) js" where
  "chain f (LeftAt r e) = ret (LeftAt r e)"
| "chain f (RightAt r a) = f a"

text \<open>\<^verbatim>\<open>var of = right\<close>.\<close>

definition ofE :: "'a \<Rightarrow> ('w, 'x, ('e, 'a) either) js" where
  "ofE = right"

subsection \<open>Constructors from other values\<close>

text \<open>
  \<^verbatim>\<open>fromNullable\<close> takes any JavaScript value. The values: \<^verbatim>\<open>undefined\<close>, \<^verbatim>\<open>null\<close>, the
  booleans, the numbers (the integers and \<^verbatim>\<open>NaN\<close> stand for them: the test below never looks
  at a number's value), the strings, and the objects by address.
\<close>

datatype jsval =
    JUndefined
  | JNull
  | JBoolean bool
  | JNumber int
  | JNaN
  | JString string
  | JObject nat

text \<open>
  \<^verbatim>\<open>a == null\<close>, the language's loose equality with \<^verbatim>\<open>null\<close> on the right: \<^verbatim>\<open>null\<close> equals
  itself, \<^verbatim>\<open>undefined\<close> and \<^verbatim>\<open>null\<close> equal each other, and no conversion brings a boolean,
  a number, a string or an object to \<^verbatim>\<open>null\<close>.
\<close>

fun loosely_equals_null :: "jsval \<Rightarrow> bool" where
  "loosely_equals_null JNull = True"
| "loosely_equals_null JUndefined = True"
| "loosely_equals_null (JBoolean b) = False"
| "loosely_equals_null (JNumber n) = False"
| "loosely_equals_null JNaN = False"
| "loosely_equals_null (JString s) = False"
| "loosely_equals_null (JObject r) = False"

text \<open>
  \<^verbatim>\<open>fromNullable(e) = a => a == null ? left(e()) : right(a)\<close>, with \<open>e\<close> a thunk.
\<close>

definition fromNullable :: "('w, 'x, 'e) js \<Rightarrow> jsval \<Rightarrow> ('w, 'x, ('e, jsval) either) js" where
  "fromNullable e a = (if loosely_equals_null a then bind e left else right a)"

text \<open>
  \<^verbatim>\<open>tryCatch(f, onError)\<close>: \<^verbatim>\<open>try { return right(f()) } catch (e) { return left(onError(e)) }\<close>.
  A throw of \<open>onError\<close> itself is outside the \<^verbatim>\<open>try\<close> block and leaves \<open>tryCatch\<close>.
\<close>

definition tryCatch :: "('w, 'x, 'a) js \<Rightarrow> ('x \<Rightarrow> ('w, 'x, 'e) js) \<Rightarrow> ('w, 'x, ('e, 'a) either) js" where
  "tryCatch f onError = try_catch (bind f right) (\<lambda>e. bind (onError e) left)"

subsection \<open>Capabilities supplied by the caller\<close>

text \<open>
  The interfaces \<^verbatim>\<open>Semigroup\<close> (\<^verbatim>\<open>concat\<close>), \<^verbatim>\<open>Monoid\<close> (\<^verbatim>\<open>concat\<close>, \<^verbatim>\<open>empty\<close>) and
  \<^verbatim>\<open>Eq\<close> (\<^verbatim>\<open>equals\<close>). Their members are the caller's functions, so they are computations
  like every other callback.
\<close>

record ('a, 'w, 'x) Semigroup =
  concatS :: "'a \<Rightarrow> 'a \<Rightarrow> ('w, 'x, 'a) js"

record ('a, 'w, 'x) Monoid = "('a, 'w, 'x) Semigroup" +
  emptyM :: 'a

record ('a, 'w, 'x) Eq =
  equals :: "'a \<Rightarrow> 'a \<Rightarrow> ('w, 'x, bool) js"

subsection \<open>Validation instances\<close>

text \<open>
  The \<^verbatim>\<open>ap\<close> member of \<^verbatim>\<open>getValidation(S)\<close>, called as \<^verbatim>\<open>ap(ma)(mab)\<close>:
  \<^verbatim>\<open>isLeft(mab) ? (isLeft(ma) ? left(S.concat(mab.left, ma.left)) : mab)
              : (isLeft(ma) ? ma : right(mab.right(ma.right)))\<close>.
\<close>

fun getValidation_ap ::
  "('e, 'w, 'x) Semigroup \<Rightarrow> ('e, 'a) either \<Rightarrow> ('e, 'a \<Rightarrow> ('w, 'x, 'b) js) either
    \<Rightarrow> ('w, 'x, ('e, 'b) either) js" where
  "getValidation_ap S (LeftAt r e2) (LeftAt q e1) = bind (concatS S e1 e2) left"
| "getValidation_ap S (RightAt r a) (LeftAt q e1) = ret (LeftAt q e1)"
| "getValidation_ap S (LeftAt r e2) (RightAt q g) = ret (LeftAt r e2)"
| "getValidation_ap S (RightAt r a) (RightAt q g) = bind (g a) right"

text \<open>
  The \<^verbatim>\<open>alt\<close> member of \<^verbatim>\<open>getValidation(S)\<close>, called as \<^verbatim>\<open>alt(that)(fa)\<close> with \<open>that\<close>
  a thunk: \<^verbatim>\<open>if (isRight(fa)) return fa; var fy = that();
  return isLeft(fy) ? left(S.concat(fa.left, fy.left)) : fy\<close>.
\<close>

fun getValidation_alt ::
  "('e, 'w, 'x) Semigroup \<Rightarrow> ('w, 'x, ('e, 'a) either) js \<Rightarrow> ('e, 'a) either
    \<Rightarrow> ('w, 'x, ('e, 'a) either) js" where
  "getValidation_alt S that (RightAt r a) = ret (RightAt r a)"
| "getValidation_alt S that (LeftAt r e1) =
     bind that (\<lambda>fy. case fy of
                        LeftAt q e2 \<Rightarrow> bind (concatS S e1 e2) left
                      | RightAt q b \<Rightarrow> ret (RightAt q b))"

text \<open>
  \<^verbatim>\<open>getValidationSemigroup(SE, SA)\<close> is a \<^verbatim>\<open>Semigroup\<close> of Eithers; its \<^verbatim>\<open>concat(fx, fy)\<close> is
  \<^verbatim>\<open>isLeft(fx) ? (isLeft(fy) ? left(SE.concat(fx.left, fy.left)) : fx)
             : (isLeft(fy) ? fy : right(SA.concat(fx.right, fy.right)))\<close>.
\<close>

fun getValidationSemigroup_concat ::
  "('e, 'w, 'x) Semigroup \<Rightarrow> ('a, 'w, 'x) Semigroup \<Rightarrow> ('e, 'a) either \<Rightarrow> ('e, 'a) either
    \<Rightarrow> ('w, 'x, ('e, 'a) either) js" where
  "getValidationSemigroup_concat SE SA (LeftAt r e1) (LeftAt q e2) = bind (concatS SE e1 e2) left"
| "getValidationSemigroup_concat SE SA (LeftAt r e1) (RightAt q a2) = ret (LeftAt r e1)"
| "getValidationSemigroup_concat SE SA (RightAt r a1) (LeftAt q e2) = ret (LeftAt q e2)"
| "getValidationSemigroup_concat SE SA (RightAt r a1) (RightAt q a2) = bind (concatS SA a1 a2) right"

definition getValidationSemigroup ::
  "('e, 'w, 'x) Semigroup \<Rightarrow> ('a, 'w, 'x) Semigroup \<Rightarrow> (('e, 'a) either, 'w, 'x) Semigroup" where
  "getValidationSemigroup SE SA = \<lparr>concatS = getValidationSemigroup_concat SE SA\<rparr>"

subsection \<open>Equality\<close>

text \<open>
  \<^verbatim>\<open>getEq(EL, EA).equals(x, y)\<close> is
  \<^verbatim>\<open>x === y || (isLeft(x) ? isLeft(y) && EL.equals(x.left, y.left)
                           : isRight(y) && EA.equals(x.right, y.right))\<close>.
  On two objects \<^verbatim>\<open>===\<close> compares addresses; \<^verbatim>\<open>||\<close> and \<^verbatim>\<open>&&\<close> evaluate their right
  operand only when the left one does not decide.
\<close>

definition getEq_equals ::
  "('e, 'w, 'x) Eq \<Rightarrow> ('a, 'w, 'x) Eq \<Rightarrow> ('e, 'a) either \<Rightarrow> ('e, 'a) either \<Rightarrow> ('w, 'x, bool) js" where
  "getEq_equals EL EA x y =
     (if addr x = addr y then ret True
      else (case x of
              LeftAt r xl \<Rightarrow> (case y of
                                LeftAt q yl \<Rightarrow> equals EL xl yl
                              | RightAt q yr \<Rightarrow> ret False)
            | RightAt r xr \<Rightarrow> (case y of
                                 LeftAt q yl \<Rightarrow> ret False
                               | RightAt q yr \<Rightarrow> equals EA xr yr)))"

definition getEq :: "('e, 'w, 'x) Eq \<Rightarrow> ('a, 'w, 'x) Eq \<Rightarrow> (('e, 'a) either, 'w, 'x) Eq" where
  "getEq EL EA = \<lparr>equals = getEq_equals EL EA\<rparr>"

subsection \<open>Compactable and Filterable instances\<close>

text \<open>
  The result \<^verbatim>\<open>{ left: ..., right: ... }\<close> of \<^verbatim>\<open>separate\<close> and \<^verbatim>\<open>partition\<close>. Nothing compares
  these pairs, or the instance objects below, by identity, so they are plain records.
\<close>

record ('l, 'r) Separated =
  leftS :: 'l
  rightS :: 'r

record ('e, 'a, 'b, 'c, 'w, 'x) Compactable =
  compact :: "('e, 'c option) either \<Rightarrow> ('w, 'x, ('e, 'c) either) js"
  separate :: "('e, ('a, 'b) either) either
                 \<Rightarrow> ('w, 'x, (('e, 'a) either, ('e, 'b) either) Separated) js"

text \<open>
  \<^verbatim>\<open>getCompactable(M)\<close> first evaluates \<^verbatim>\<open>var empty = left(M.empty)\<close>: one \<^verbatim>\<open>Left\<close> object,
  built when the instance is, at the address \<open>r\<close> taken then. Each later use of the variable
  \<^verbatim>\<open>empty\<close> is that object, \<open>LeftAt r (emptyM M)\<close>. An \<^verbatim>\<open>Option\<close> is an \<open>option\<close>.

  \<^verbatim>\<open>compact = ma => isLeft(ma) ? ma : ma.right._tag === 'None' ? left(M.empty) : right(ma.right.value)\<close>

  \<^verbatim>\<open>separate = ma => isLeft(ma) ? { left: ma, right: ma }
     : isLeft(ma.right) ? { left: right(ma.right.left), right: empty }
                        : { left: empty, right: right(ma.right.right) }\<close>
\<close>

definition getCompactable ::
  "('e, 'w, 'x) Monoid \<Rightarrow> ('w, 'x, ('e, 'a, 'b, 'c, 'w, 'x) Compactable) js" where
  "getCompactable M =
     bind (alloc (\<lambda>r. r)) (\<lambda>r. ret
       \<lparr>compact = (\<lambda>ma. case ma of
                           LeftAt q e \<Rightarrow> ret (LeftAt q e)
                         | RightAt q None \<Rightarrow> left (emptyM M)
                         | RightAt q (Some v) \<Rightarrow> right v),
        separate = (\<lambda>ma. case ma of
                            LeftAt q e \<Rightarrow> ret \<lparr>leftS = LeftAt q e, rightS = LeftAt q e\<rparr>
                          | RightAt q (LeftAt q' a) \<Rightarrow>
                              bind (right a) (\<lambda>l. ret \<lparr>leftS = l, rightS = LeftAt r (emptyM M)\<rparr>)
                          | RightAt q (RightAt q' b) \<Rightarrow>
                              bind (right b) (\<lambda>l. ret \<lparr>leftS = LeftAt r (emptyM M), rightS = l\<rparr>))\<rparr>)"

record ('e, 'a, 'b, 'c, 'w, 'x) Filterable = "('e, 'a, 'b, 'c, 'w, 'x) Compactable" +
  mapF :: "('a \<Rightarrow> ('w, 'x, 'b) js) \<Rightarrow> ('e, 'a) either \<Rightarrow> ('w, 'x, ('e, 'b) either) js"
  filterF :: "('a \<Rightarrow> ('w, 'x, bool) js) \<Rightarrow> ('e, 'a) either \<Rightarrow> ('w, 'x, ('e, 'a) either) js"
  filterMap :: "('a \<Rightarrow> ('w, 'x, 'b option) js) \<Rightarrow> ('e, 'a) either \<Rightarrow> ('w, 'x, ('e, 'b) either) js"
  partitionF :: "('a \<Rightarrow> ('w, 'x, bool) js) \<Rightarrow> ('e, 'a) either
                   \<Rightarrow> ('w, 'x, (('e, 'a) either, ('e, 'a) either) Separated) js"
  partitionMap :: "('c \<Rightarrow> ('w, 'x, ('a, 'b) either) js) \<Rightarrow> ('e, 'c) either
                     \<Rightarrow> ('w, 'x, (('e, 'a) either, ('e, 'b) either) Separated) js"

text \<open>
  \<^verbatim>\<open>getFilterable(M)\<close> evaluates its own \<^verbatim>\<open>var empty = left(M.empty)\<close>, then, in the
  returned object, copies the members of \<^verbatim>\<open>getCompactable(M)\<close> and adds its own:

  \<^verbatim>\<open>filter = predicate => ma => isLeft(ma) ? ma : predicate(ma.right) ? ma : left(M.empty)\<close>

  \<^verbatim>\<open>filterMap = f => ma => { if (isLeft(ma)) return ma; var ob = f(ma.right);
     return ob._tag === 'None' ? left(M.empty) : right(ob.value) }\<close>

  \<^verbatim>\<open>partition = p => ma => isLeft(ma) ? { left: ma, right: ma }
     : p(ma.right) ? { left: empty, right: right(ma.right) }
                   : { left: right(ma.right), right: empty }\<close>

  \<^verbatim>\<open>partitionMap = f => ma => { if (isLeft(ma)) return { left: ma, right: ma }; var e = f(ma.right);
     return isLeft(e) ? { left: right(e.left), right: empty } : { left: empty, right: right(e.right) } }\<close>
\<close>

definition getFilterable ::
  "('e, 'w, 'x) Monoid \<Rightarrow> ('w, 'x, ('e, 'a, 'b, 'c, 'w, 'x) Filterable) js" where
  "getFilterable M =
     bind (alloc (\<lambda>r. r)) (\<lambda>r.
     bind (getCompactable M) (\<lambda>C. ret
       \<lparr>compact = compact C,
        separate = separate C,
        mapF = mapE,
        filterF = (\<lambda>predicate ma. case ma of
                      LeftAt q e \<Rightarrow> ret (LeftAt q e)
                    | RightAt q a \<Rightarrow>
                        bind (predicate a) (\<lambda>ok. if ok then ret (RightAt q a) else left (emptyM M))),
        filterMap = (\<lambda>f ma. case ma of
                        LeftAt q e \<Rightarrow> ret (LeftAt q e)
                      | RightAt q a \<Rightarrow>
                          bind (f a) (\<lambda>ob. case ob of None \<Rightarrow> left (emptyM M) | Some v \<Rightarrow> right v)),
        partitionF = (\<lambda>p ma. case ma of
                         LeftAt q e \<Rightarrow> ret \<lparr>leftS = LeftAt q e, rightS = LeftAt q e\<rparr>
                       | RightAt q a \<Rightarrow>
                           bind (p a) (\<lambda>ok.
                             if ok
                             then bind (right a) (\<lambda>l. ret \<lparr>leftS = LeftAt r (emptyM M), rightS = l\<rparr>)
                             else bind (right a) (\<lambda>l. ret \<lparr>leftS = l, rightS = LeftAt r (emptyM M)\<rparr>))),
        partitionMap = (\<lambda>f ma. case ma of
                           LeftAt q e \<Rightarrow> ret \<lparr>leftS = LeftAt q e, rightS = LeftAt q e\<rparr>
                         | RightAt q c \<Rightarrow>
                             bind (f c) (\<lambda>e. case e of
                               LeftAt q' a \<Rightarrow>
                                 bind (right a) (\<lambda>l. ret \<lparr>leftS = l, rightS = LeftAt r (emptyM M)\<rparr>)
                             | RightAt q' b \<Rightarrow>
                                 bind (right b) (\<lambda>l. ret \<lparr>leftS = LeftAt r (emptyM M), rightS = l\<rparr>)))\<rparr>))"


section \<open>IOEither.js\<close>

subsection \<open>The modules it is built from\<close>

text \<open>
  Modelled from the spec: the \<^verbatim>\<open>IO\<close> module (\<^verbatim>\<open>./IO\<close>, not among the sources). An \<^verbatim>\<open>IO\<close> is a
  thunk. Spec 4.3: \<^verbatim>\<open>of(a)\<close> "returns an IO that always yields \<open>a\<close>, performing no effect";
  \<^verbatim>\<open>map(f)\<close> "composes \<open>f\<close> after invocation, without invoking either until the combined IO is
  itself invoked"; \<^verbatim>\<open>chain(f)\<close>: "invoke, feed result into \<open>f\<close>, invoke the resulting IO".
\<close>

type_synonym ('w, 'x, 'a) IO = "('w, 'x, 'a) js"

definition io_of :: "'a \<Rightarrow> ('w, 'x, 'a) IO" where
  "io_of a = ret a"

definition io_map :: "('a \<Rightarrow> ('w, 'x, 'b) js) \<Rightarrow> ('w, 'x, 'a) IO \<Rightarrow> ('w, 'x, 'b) IO" where
  "io_map f fa = bind fa f"

definition io_chain :: "('a \<Rightarrow> ('w, 'x, ('w, 'x, 'b) IO) js) \<Rightarrow> ('w, 'x, 'a) IO \<Rightarrow> ('w, 'x, 'b) IO" where
  "io_chain f ma = bind ma (\<lambda>a. bind (f a) (\<lambda>mb. mb))"

text \<open>
  Modelled from the spec: the \<^verbatim>\<open>EitherT\<close> module (\<^verbatim>\<open>./EitherT\<close>, not among the sources), at the
  base \<^verbatim>\<open>io.monadIO\<close> as \<^verbatim>\<open>IOEither.js\<close> uses it. Spec 4.4: \<^verbatim>\<open>left(M)(e)\<close> is
  \<^verbatim>\<open>M.of(Left(e))\<close>, \<^verbatim>\<open>right(M)(a)\<close> is \<^verbatim>\<open>M.of(Right(a))\<close>, and \<^verbatim>\<open>chain(M)(f)(ma)\<close> is
  \<^verbatim>\<open>M.chain(ma, e => isLeft(e) ? M.of(e) : f(e.right))\<close>. The Either is built when \<^verbatim>\<open>left\<close> or
  \<^verbatim>\<open>right\<close> is called; the thunk returned only hands it out.
\<close>

type_synonym ('w, 'x, 'e, 'a) IOEither = "('w, 'x, ('e, 'a) either) IO"

definition IOEither_left :: "'e \<Rightarrow> ('w, 'x, ('w, 'x, 'e, 'a) IOEither) js" where
  "IOEither_left e = bind (left e) (\<lambda>l. ret (io_of l))"

definition IOEither_right :: "'a \<Rightarrow> ('w, 'x, ('w, 'x, 'e, 'a) IOEither) js" where
  "IOEither_right a = bind (right a) (\<lambda>r. ret (io_of r))"

definition IOEither_chain ::
  "('a \<Rightarrow> ('w, 'x, ('w, 'x, 'e, 'b) IOEither) js) \<Rightarrow> ('w, 'x, 'e, 'a) IOEither
    \<Rightarrow> ('w, 'x, 'e, 'b) IOEither" where
  "IOEither_chain f ma =
     io_chain (\<lambda>e. case e of
                      LeftAt r l \<Rightarrow> ret (io_of (LeftAt r l))
                    | RightAt r a \<Rightarrow> f a) ma"

text \<open>\<^verbatim>\<open>export var of = right\<close>.\<close>

definition IOEither_of :: "'a \<Rightarrow> ('w, 'x, ('w, 'x, 'e, 'a) IOEither) js" where
  "IOEither_of = IOEither_right"

subsection \<open>tryCatch and bracket\<close>

text \<open>
  \<^verbatim>\<open>tryCatch(f, onError) = () => E.tryCatch(f, onError)\<close>: the thunk whose body is the
  call of Either's \<^verbatim>\<open>tryCatch\<close>.
\<close>

definition IOEither_tryCatch ::
  "('w, 'x, 'a) js \<Rightarrow> ('x \<Rightarrow> ('w, 'x, 'e) js) \<Rightarrow> ('w, 'x, 'e, 'a) IOEither" where
  "IOEither_tryCatch f onError = (\<lambda>s. tryCatch f onError s)"

text \<open>
  \<^verbatim>\<open>bracket(acquire, use, release) =
     pipe(acquire, chain(a =>
       pipe(pipe(use(a), io.monadIO.map(E.right)), chain(e =>
         pipe(release(a, e), chain(() => E.isLeft(e) ? left(e.left) : of(e.right)))))))\<close>

  where \<^verbatim>\<open>pipe(x, f)\<close> is \<^verbatim>\<open>f(x)\<close>. \<open>acquire\<close> is an \<^verbatim>\<open>IOEither\<close>; \<open>use\<close> and \<open>release\<close> are
  the caller's functions, whose calls return an \<^verbatim>\<open>IOEither\<close>.
\<close>

definition bracket ::
  "('w, 'x, 'e, 'a) IOEither
    \<Rightarrow> ('a \<Rightarrow> ('w, 'x, ('w, 'x, 'e, 'b) IOEither) js)
    \<Rightarrow> ('a \<Rightarrow> ('e, 'b) either \<Rightarrow> ('w, 'x, ('w, 'x, 'e, 'c) IOEither) js)
    \<Rightarrow> ('w, 'x, 'e, 'b) IOEither" where
  "bracket acquire use release =
     IOEither_chain (\<lambda>a.
       bind (use a) (\<lambda>ua. ret
         (IOEither_chain (\<lambda>e.
            bind (release a e) (\<lambda>re. ret
              (IOEither_chain (\<lambda>u. case e of
                                      LeftAt q l \<Rightarrow> IOEither_left l
                                    | RightAt q b \<Rightarrow> IOEither_of b) re)))
          (io_map right ua)))) acquire"


section \<open>Example capabilities and effects\<close>

text \<open>
  Inputs for the concrete runs below. String concatenation as a semigroup, as a caller
  writes it: \<^verbatim>\<open>{ concat: (x, y) => x + y }\<close>.
\<close>

definition semigroupString :: "(string, 'w, 'x) Semigroup" where
  "semigroupString = \<lparr>concatS = (\<lambda>x y. ret (x @ y))\<rparr>"

text \<open>
  The equality \<^verbatim>\<open>{ equals: (x, y) => x === y }\<close> on plain values. \<^verbatim>\<open>NaN === NaN\<close> is
  false, so it is not reflexive.
\<close>

fun strictly_equals :: "jsval \<Rightarrow> jsval \<Rightarrow> bool" where
  "strictly_equals JNaN y = False"
| "strictly_equals x y = (x = y)"

definition eqStrict :: "(jsval, 'w, 'x) Eq" where
  "eqStrict = \<lparr>equals = (\<lambda>x y. ret (strictly_equals x y))\<rparr>"

text \<open>
  Effects that leave a trace: the world is a log of names. \<open>logged name v\<close> writes its name
  and returns \<open>v\<close>; \<open>failing name x\<close> writes its name and throws \<open>x\<close>.
\<close>

definition logged :: "string \<Rightarrow> 'a \<Rightarrow> (string list, string, 'a) js" where
  "logged name v = (\<lambda>s. (Return v, s\<lparr>world := world s @ [name]\<rparr>))"

definition failing :: "string \<Rightarrow> string \<Rightarrow> (string list, string, 'a) js" where
  "failing name x = (\<lambda>s. (Throw x, s\<lparr>world := world s @ [name]\<rparr>))"


section \<open>Properties\<close>

subsection \<open>The monad and its sequencing\<close>

lemma ret_run: "ret a s = (Return a, s)"
  by (simp add: ret_def)

lemma bind_ret [simp]: "bind (ret a) k = k a"
  by (simp add: bind_def ret_def)

lemma bind_assoc: "bind (bind m k) h = bind m (\<lambda>a. bind (k a) h)"
  by (rule ext) (simp add: bind_def split: prod.splits completion.splits)

lemma left_run: "left e s = (Return (LeftAt (next_addr s) e), s\<lparr>next_addr := Suc (next_addr s)\<rparr>)"
  by (simp add: left_def alloc_def)

lemma right_run: "right a s = (Return (RightAt (next_addr s) a), s\<lparr>next_addr := Suc (next_addr s)\<rparr>)"
  by (simp add: right_def alloc_def)

subsection \<open>A Left passes through map, chain and ap\<close>

text \<open>
  C7. For every \<^verbatim>\<open>Left\<close> object \<open>l\<close> (the object at any address \<open>r\<close> with any payload \<open>e\<close>) and
  all \<open>f\<close>, \<open>g\<close>, \<open>fa\<close>: \<^verbatim>\<open>map(f)(l)\<close>, \<^verbatim>\<open>chain(g)(l)\<close> and \<^verbatim>\<open>ap(fa)(l)\<close> return \<open>l\<close> itself:
  the same address and the same payload, with no call of \<open>f\<close> or \<open>g\<close>, no allocation and no
  change to the store. That holds in particular for the object that \<^verbatim>\<open>left(e)\<close> has just
  built, and a pipeline of the three hands that object through.
\<close>

theorem left_passes_through:
  "mapE f (LeftAt r e) = ret (LeftAt r e)
   \<and> chain g (LeftAt r e) = ret (LeftAt r e)
   \<and> ap fa (LeftAt r e) = ret (LeftAt r e)
   \<and> bind (left e) (mapE f) s = (Return (LeftAt (next_addr s) e), snd (left e s))
   \<and> bind (left e) (chain g) s = (Return (LeftAt (next_addr s) e), snd (left e s))
   \<and> bind (left e) (ap fa) s = (Return (LeftAt (next_addr s) e), snd (left e s))
   \<and> bind (mapE f (LeftAt r e)) (\<lambda>x. bind (chain h x) (ap fb)) = ret (LeftAt r e)"
proof (intro conjI)
  show "bind (left e) (mapE f) s = (Return (LeftAt (next_addr s) e), snd (left e s))"
    by (simp add: bind_def left_run ret_run)
  show "bind (left e) (chain g) s = (Return (LeftAt (next_addr s) e), snd (left e s))"
    by (simp add: bind_def left_run ret_run)
  show "bind (left e) (ap fa) s = (Return (LeftAt (next_addr s) e), snd (left e s))"
    by (simp add: bind_def left_run ret_run)
qed simp_all

subsection \<open>Default ap\<close>

text \<open>
  C4. \<^verbatim>\<open>ap(fa)(fab)\<close> returns \<open>fab\<close> when \<open>fab\<close> is a \<^verbatim>\<open>Left\<close>, whatever \<open>fa\<close> is; it returns
  \<open>fa\<close> when \<open>fab\<close> is a \<^verbatim>\<open>Right\<close> and \<open>fa\<close> a \<^verbatim>\<open>Left\<close>; and when both are \<^verbatim>\<open>Right\<close> it is
  \<^verbatim>\<open>right(fab.right(fa.right))\<close>. So \<^verbatim>\<open>ap(right(1))(left("e"))\<close> and
  \<^verbatim>\<open>ap(left("x"))(left("e"))\<close> both return the \<^verbatim>\<open>left("e")\<close> they were given (the second object
  built, at the address after the first).
\<close>

theorem ap_short_circuits:
  "ap fa (LeftAt q e) = ret (LeftAt q e)
   \<and> ap (LeftAt r e') (RightAt q g) = ret (LeftAt r e')
   \<and> ap (RightAt r a) (RightAt q g) = bind (g a) right
   \<and> bind (right (1::int)) (\<lambda>fa. bind (left ''e'') (\<lambda>fab. ap fa fab)) s
       = (Return (LeftAt (Suc (next_addr s)) ''e''), s\<lparr>next_addr := Suc (Suc (next_addr s))\<rparr>)
   \<and> bind (left ''x'') (\<lambda>fa. bind (left ''e'') (\<lambda>fab. ap fa fab)) s
       = (Return (LeftAt (Suc (next_addr s)) ''e''), s\<lparr>next_addr := Suc (Suc (next_addr s))\<rparr>)"
  by (simp add: bind_def left_run right_run ret_run)

subsection \<open>Monad laws\<close>

text \<open>
  C3. The monad laws of \<^verbatim>\<open>chain\<close> with \<^verbatim>\<open>of = right\<close>.

  \<^item> Associativity: \<^verbatim>\<open>chain(g)(chain(f)(m))\<close> and \<^verbatim>\<open>chain(a => chain(g)(f(a)))(m)\<close> are the
    same computation, for all \<open>m\<close>, \<open>f\<close>, \<open>g\<close>.
  \<^item> Left identity: on every \<^verbatim>\<open>Right\<close> object holding \<open>a\<close>, \<^verbatim>\<open>chain(f)\<close> is the call \<^verbatim>\<open>f(a)\<close>;
    so \<^verbatim>\<open>chain(f)(of(a))\<close> is \<^verbatim>\<open>f(a)\<close>, called once \<^verbatim>\<open>of(a)\<close> has built its object.
  \<^item> Right identity: \<^verbatim>\<open>chain(of)(m)\<close> returns \<open>m\<close> itself when \<open>m\<close> is a \<^verbatim>\<open>Left\<close>, and a
    \<^verbatim>\<open>Right\<close> with the payload of \<open>m\<close> when \<open>m\<close> is a \<^verbatim>\<open>Right\<close>: an equal value, in a new object.
\<close>

theorem chain_monad_laws:
  "bind (chain f m) (chain g) = chain (\<lambda>a. bind (f a) (chain g)) m
   \<and> chain f (RightAt r a) = f a
   \<and> bind (ofE a) (chain f) s = f a (s\<lparr>next_addr := Suc (next_addr s)\<rparr>)
   \<and> chain ofE (LeftAt r e) = ret (LeftAt r e)
   \<and> chain ofE (RightAt r a) s = (Return (RightAt (next_addr s) a), s\<lparr>next_addr := Suc (next_addr s)\<rparr>)"
proof (intro conjI)
  show "bind (chain f m) (chain g) = chain (\<lambda>a. bind (f a) (chain g)) m"
    by (cases m) simp_all
  show "bind (ofE a) (chain f) s = f a (s\<lparr>next_addr := Suc (next_addr s)\<rparr>)"
    by (simp add: ofE_def bind_def right_run)
  show "chain ofE (RightAt r a) s = (Return (RightAt (next_addr s) a), s\<lparr>next_addr := Suc (next_addr s)\<rparr>)"
    by (simp add: ofE_def right_run)
qed simp_all

subsection \<open>fromNullable\<close>

text \<open>
  C8. \<^verbatim>\<open>fromNullable(e)(a)\<close> is \<^verbatim>\<open>left(e())\<close> when \<open>a\<close> is \<^verbatim>\<open>null\<close> or \<^verbatim>\<open>undefined\<close>. For every
  other \<open>a\<close> it is \<^verbatim>\<open>right(a)\<close>: one new \<^verbatim>\<open>Right\<close> holding \<open>a\<close>, and the world as it was, since \<open>e\<close>
  is not invoked. The falsy values \<^verbatim>\<open>0\<close>, \<^verbatim>\<open>""\<close>, \<^verbatim>\<open>false\<close> and \<^verbatim>\<open>NaN\<close> are among the others.
\<close>

theorem fromNullable_nullish_only:
  "(a = JNull \<or> a = JUndefined \<longrightarrow> fromNullable e a = bind e left)
   \<and> (a \<noteq> JNull \<and> a \<noteq> JUndefined \<longrightarrow>
        fromNullable e a = right a
        \<and> fromNullable e a s = (Return (RightAt (next_addr s) a), s\<lparr>next_addr := Suc (next_addr s)\<rparr>))
   \<and> fromNullable e (JNumber 0) = right (JNumber 0)
   \<and> fromNullable e (JString '''') = right (JString '''')
   \<and> fromNullable e (JBoolean False) = right (JBoolean False)
   \<and> fromNullable e JNaN = right JNaN"
  by (cases a) (auto simp add: fromNullable_def right_run)

text \<open>
  With an \<open>e\<close> that logs its invocation: the log shows it for \<^verbatim>\<open>null\<close> and \<^verbatim>\<open>undefined\<close>, and
  stays empty for the number \<^verbatim>\<open>1\<close>.
\<close>

theorem fromNullable_nullish_only_witness:
  "fromNullable (logged ''e'' ''nully'') JNull \<lparr>next_addr = 0, world = []\<rparr>
     = (Return (LeftAt 0 ''nully''), \<lparr>next_addr = 1, world = [''e'']\<rparr>)
   \<and> fromNullable (logged ''e'' ''nully'') JUndefined \<lparr>next_addr = 0, world = []\<rparr>
     = (Return (LeftAt 0 ''nully''), \<lparr>next_addr = 1, world = [''e'']\<rparr>)
   \<and> fromNullable (logged ''e'' ''nully'') (JNumber 1) \<lparr>next_addr = 0, world = []\<rparr>
     = (Return (RightAt 0 (JNumber 1)), \<lparr>next_addr = 1, world = []\<rparr>)"
  using fromNullable_nullish_only [where a = JNull and e = "logged ''e'' ''nully''"]
    fromNullable_nullish_only [where a = JUndefined and e = "logged ''e'' ''nully''"]
    fromNullable_nullish_only [where a = "JNumber 1" and e = "logged ''e'' ''nully''"
      and s = "\<lparr>next_addr = 0, world = []\<rparr>"]
  by (simp add: bind_def logged_def left_run right_run)

subsection \<open>tryCatch\<close>

lemma tryCatch_onError_throws:
  "f s = (Throw x, s1) \<Longrightarrow> onError x s1 = (Throw y, s2) \<Longrightarrow> tryCatch f onError s = (Throw y, s2)"
  by (simp add: tryCatch_def try_catch_def bind_def)

text \<open>
  C6. When the call of \<open>f\<close> returns \<open>v\<close>, \<^verbatim>\<open>tryCatch(f, onError)\<close> returns \<^verbatim>\<open>right(v)\<close>, built
  in the store \<open>f\<close> left. When the call of \<open>f\<close> throws \<open>x\<close> and \<^verbatim>\<open>onError(x)\<close> returns \<open>e\<close>, it
  returns \<^verbatim>\<open>left(e)\<close>. Invoking the thunk that IOEither's \<^verbatim>\<open>tryCatch(f, onError)\<close> returns does
  the same.
\<close>

theorem tryCatch_wraps:
  "(f s = (Return v, s1) \<longrightarrow>
      tryCatch f onError s = right v s1 \<and> IOEither_tryCatch f onError s = right v s1)
   \<and> (f s = (Throw x, s1) \<and> onError x s1 = (Return e, s2) \<longrightarrow>
      tryCatch f onError s = left e s2 \<and> IOEither_tryCatch f onError s = left e s2)"
  by (simp add: tryCatch_def IOEither_tryCatch_def try_catch_def bind_def right_run left_run)

theorem tryCatch_wraps_witness:
  "tryCatch (logged ''f'' (42::int)) (\<lambda>x. logged ''onError'' (x @ ''!''))
       \<lparr>next_addr = 0, world = []\<rparr>
     = (Return (RightAt 0 42), \<lparr>next_addr = 1, world = [''f'']\<rparr>)
   \<and> IOEither_tryCatch (logged ''f'' (42::int)) (\<lambda>x. logged ''onError'' (x @ ''!''))
       \<lparr>next_addr = 0, world = []\<rparr>
     = (Return (RightAt 0 42), \<lparr>next_addr = 1, world = [''f'']\<rparr>)
   \<and> tryCatch (failing ''f'' ''x'') (\<lambda>x. logged ''onError'' (x @ ''!''))
       \<lparr>next_addr = 0, world = []\<rparr>
     = (Return (LeftAt 0 ''x!'' :: (string, int) either),
        \<lparr>next_addr = 1, world = [''f'', ''onError'']\<rparr>)
   \<and> IOEither_tryCatch (failing ''f'' ''x'') (\<lambda>x. logged ''onError'' (x @ ''!''))
       \<lparr>next_addr = 0, world = []\<rparr>
     = (Return (LeftAt 0 ''x!'' :: (string, int) either),
        \<lparr>next_addr = 1, world = [''f'', ''onError'']\<rparr>)"
  using
    tryCatch_wraps [where f = "logged ''f'' (42::int)"
      and onError = "\<lambda>x. logged ''onError'' (x @ ''!'')"
      and s = "\<lparr>next_addr = 0, world = []\<rparr>" and v = 42
      and ?s1.0 = "\<lparr>next_addr = 0, world = [''f'']\<rparr>"]
    tryCatch_wraps [where f = "failing ''f'' ''x'' :: (string list, string, int) js"
      and onError = "\<lambda>x. logged ''onError'' (x @ ''!'')"
      and s = "\<lparr>next_addr = 0, world = []\<rparr>" and x = "''x''"
      and ?s1.0 = "\<lparr>next_addr = 0, world = [''f'']\<rparr>"
      and e = "''x!''" and ?s2.0 = "\<lparr>next_addr = 0, world = [''f'', ''onError'']\<rparr>"]
  by (simp add: logged_def failing_def left_run right_run)

subsection \<open>Validation: accumulating the failures\<close>

text \<open>
  C2. In \<^verbatim>\<open>getValidation(S).ap(ma)(mab)\<close> with both sides \<^verbatim>\<open>Left\<close>, the result is
  \<^verbatim>\<open>left(S.concat(mab.left, ma.left))\<close>: the payload of the function side \<open>mab\<close> first, that of
  the argument side \<open>ma\<close> second. With string concatenation,
  \<^verbatim>\<open>getValidation(S).ap(left("b"))(left("a"))\<close> returns a new \<^verbatim>\<open>Left\<close> holding \<^verbatim>\<open>"ab"\<close>.
\<close>

theorem validation_ap_accumulates:
  "getValidation_ap S (LeftAt r e2) (LeftAt q e1) = bind (concatS S e1 e2) left
   \<and> bind (left ''b'') (\<lambda>ma. bind (left ''a'') (\<lambda>mab. getValidation_ap semigroupString ma mab)) s
       = (Return (LeftAt (Suc (Suc (next_addr s))) ''ab''),
          s\<lparr>next_addr := Suc (Suc (Suc (next_addr s)))\<rparr>)"
  by (simp add: bind_def left_run ret_run semigroupString_def)

text \<open>
  C5, as the claim states it, fails on \<^verbatim>\<open>alt\<close>. \<^verbatim>\<open>getValidation(S).alt(() => right(1))\<close> applied
  to a \<^verbatim>\<open>Left\<close> holding \<^verbatim>\<open>"a"\<close> returns the \<^verbatim>\<open>Right\<close> of the alternative, not the \<^verbatim>\<open>Left\<close>; and
  applied to a \<^verbatim>\<open>Right\<close> holding \<^verbatim>\<open>1\<close> it returns that object, with the alternative \<^verbatim>\<open>right(2)\<close>
  never built and no payloads combined.
\<close>

theorem validation_alt_counterexample:
  "getValidation_alt semigroupString (right (1::int)) (LeftAt 0 ''a'') \<lparr>next_addr = 1, world = ()\<rparr>
     = (Return (RightAt 1 1), \<lparr>next_addr = 2, world = ()\<rparr>)
   \<and> fst (getValidation_alt semigroupString (right (1::int)) (LeftAt 0 ''a'')
             \<lparr>next_addr = 1, world = ()\<rparr>) \<noteq> Return (LeftAt 0 ''a'')
   \<and> getValidation_alt semigroupString (right (2::int)) (RightAt 0 1) \<lparr>next_addr = 1, world = ()\<rparr>
     = (Return (RightAt 0 1), \<lparr>next_addr = 1, world = ()\<rparr>)"
  by (simp add: bind_def right_run ret_run)

text \<open>
  C5, amended. \<^verbatim>\<open>getValidationSemigroup(SE, SA).concat\<close>: two \<^verbatim>\<open>Left\<close>s give a \<^verbatim>\<open>Left\<close> of
  \<^verbatim>\<open>SE.concat\<close> of the payloads; a \<^verbatim>\<open>Left\<close> and a \<^verbatim>\<open>Right\<close>, in either order, give the \<^verbatim>\<open>Left\<close>;
  two \<^verbatim>\<open>Right\<close>s give a \<^verbatim>\<open>Right\<close> of \<^verbatim>\<open>SA.concat\<close> of the payloads.
  \<^verbatim>\<open>getValidation(S).ap\<close>: two \<^verbatim>\<open>Left\<close>s give a \<^verbatim>\<open>Left\<close> of \<^verbatim>\<open>S.concat\<close> of the payloads, function
  side first; a \<^verbatim>\<open>Left\<close> and a \<^verbatim>\<open>Right\<close> give the \<^verbatim>\<open>Left\<close>; two \<^verbatim>\<open>Right\<close>s give a \<^verbatim>\<open>Right\<close> of
  the function payload applied to the argument payload.
  \<^verbatim>\<open>getValidation(S).alt(that)(fa)\<close>: a \<^verbatim>\<open>Right\<close> \<open>fa\<close> is returned as it is and \<open>that\<close> is not
  invoked; for a \<^verbatim>\<open>Left\<close> \<open>fa\<close>, \<open>that\<close> is invoked, and its \<^verbatim>\<open>Left\<close> gives a \<^verbatim>\<open>Left\<close> of
  \<^verbatim>\<open>S.concat(fa.left, that().left)\<close>, its \<^verbatim>\<open>Right\<close> is the result.
\<close>

theorem validation_combining:
  "getValidationSemigroup_concat SE SA (LeftAt r e1) (LeftAt q e2) = bind (concatS SE e1 e2) left
   \<and> getValidationSemigroup_concat SE SA (LeftAt r e1) (RightAt q a2) = ret (LeftAt r e1)
   \<and> getValidationSemigroup_concat SE SA (RightAt r a1) (LeftAt q e2) = ret (LeftAt q e2)
   \<and> getValidationSemigroup_concat SE SA (RightAt r a1) (RightAt q a2) = bind (concatS SA a1 a2) right
   \<and> concatS (getValidationSemigroup SE SA) = getValidationSemigroup_concat SE SA
   \<and> getValidation_ap S (LeftAt r e2) (LeftAt q e1) = bind (concatS S e1 e2) left
   \<and> getValidation_ap S (RightAt r a) (LeftAt q e1) = ret (LeftAt q e1)
   \<and> getValidation_ap S (LeftAt r e2) (RightAt q g) = ret (LeftAt r e2)
   \<and> getValidation_ap S (RightAt r a) (RightAt q g) = bind (g a) right
   \<and> getValidation_alt S that (RightAt r a) = ret (RightAt r a)
   \<and> (that s = (Return (LeftAt q e2), s') \<longrightarrow>
        getValidation_alt S that (LeftAt r e1) s = bind (concatS S e1 e2) left s')
   \<and> (that s = (Return (RightAt q b), s') \<longrightarrow>
        getValidation_alt S that (LeftAt r e1) s = (Return (RightAt q b), s'))"
  by (simp add: getValidationSemigroup_def bind_def ret_run)

theorem validation_combining_witness:
  "getValidation_alt semigroupString (logged ''that'' (LeftAt 1 ''b'')) (LeftAt 0 ''a'')
       \<lparr>next_addr = 2, world = []\<rparr>
     = (Return (LeftAt 2 ''ab'' :: (string, int) either), \<lparr>next_addr = 3, world = [''that'']\<rparr>)
   \<and> getValidation_alt semigroupString (logged ''that'' (RightAt 1 (5::int))) (LeftAt 0 ''a'')
       \<lparr>next_addr = 2, world = []\<rparr>
     = (Return (RightAt 1 5), \<lparr>next_addr = 2, world = [''that'']\<rparr>)"
  using
    validation_combining [where S = semigroupString
      and that = "logged ''that'' (LeftAt 1 ''b'' :: (string, int) either)"
      and s = "\<lparr>next_addr = 2, world = []\<rparr>" and q = 1 and ?e2.0 = "''b''"
      and s' = "\<lparr>next_addr = 2, world = [''that'']\<rparr>" and r = 0 and ?e1.0 = "''a''"]
    validation_combining [where S = semigroupString
      and that = "logged ''that'' (RightAt 1 (5::int))"
      and s = "\<lparr>next_addr = 2, world = []\<rparr>" and q = 1 and b = 5
      and s' = "\<lparr>next_addr = 2, world = [''that'']\<rparr>" and r = 0 and ?e1.0 = "''a''"]
  by (simp add: logged_def semigroupString_def bind_def ret_run left_run)

subsection \<open>Equality\<close>

text \<open>
  C9. For all \<open>EL\<close>, \<open>EA\<close> and every Either \<open>x\<close>, \<^verbatim>\<open>getEq(EL, EA).equals(x, x)\<close> returns
  \<^verbatim>\<open>true\<close> and runs nothing of \<open>EL\<close> or \<open>EA\<close>. With \<^verbatim>\<open>===\<close> as the payload equality, which
  denies \<^verbatim>\<open>NaN === NaN\<close>, a \<^verbatim>\<open>Right\<close> holding \<^verbatim>\<open>NaN\<close> still equals itself, while two distinct
  \<^verbatim>\<open>Right\<close> objects holding \<^verbatim>\<open>NaN\<close> are unequal.
\<close>

theorem getEq_reflexive_on_identical:
  "getEq_equals EL EA x x = ret True
   \<and> equals (getEq EL EA) x x = ret True
   \<and> equals eqStrict JNaN JNaN = ret False
   \<and> equals (getEq eqStrict eqStrict) (RightAt r JNaN) (RightAt r JNaN) = ret True
   \<and> equals (getEq eqStrict eqStrict) (RightAt 0 JNaN) (RightAt 1 JNaN) = ret False"
  by (simp add: getEq_def getEq_equals_def eqStrict_def)

subsection \<open>separate and partition on a Left\<close>

text \<open>
  C10. For every Monoid \<open>M\<close> and every \<^verbatim>\<open>Left\<close> object \<open>l\<close>, \<^verbatim>\<open>getCompactable(M).separate(l)\<close>
  and \<^verbatim>\<open>getFilterable(M).partition(p)(l)\<close> return the pair whose \<^verbatim>\<open>left\<close> and \<^verbatim>\<open>right\<close> are both
  \<open>l\<close>, at its own address with its own payload, whatever \<^verbatim>\<open>M.empty\<close> is. The only objects
  built are the \<^verbatim>\<open>empty\<close> of each instance, and \<open>p\<close> is not called.
\<close>

theorem left_input_in_both_components:
  "bind (getCompactable M) (\<lambda>C. separate C (LeftAt q e)) s
     = (Return \<lparr>leftS = LeftAt q e, rightS = LeftAt q e\<rparr>, s\<lparr>next_addr := Suc (next_addr s)\<rparr>)
   \<and> bind (getFilterable M) (\<lambda>F. partitionF F p (LeftAt q e)) s
     = (Return \<lparr>leftS = LeftAt q e, rightS = LeftAt q e\<rparr>,
        s\<lparr>next_addr := Suc (Suc (next_addr s))\<rparr>)"
  by (simp add: getCompactable_def getFilterable_def bind_def alloc_def ret_run)

subsection \<open>bracket\<close>

text \<open>
  C1. Run \<^verbatim>\<open>bracket(acquire, use, release)\<close> in a store \<open>s\<close>.

  \<^item> If \<open>acquire\<close> yields a \<^verbatim>\<open>Left\<close>, the result is that \<^verbatim>\<open>Left\<close> and the store is the one
    \<open>acquire\<close> left: neither \<open>use\<close> nor \<open>release\<close> has run, whatever they are.
  \<^item> If \<open>acquire\<close> yields a \<^verbatim>\<open>Right\<close> holding \<open>a\<close>, then \<^verbatim>\<open>use(a)\<close> is called and invoked, and
    for its outcome \<open>e\<close>, \<^verbatim>\<open>Left\<close> or \<^verbatim>\<open>Right\<close>, \<^verbatim>\<open>release(a, e)\<close> is called and invoked (after one
    allocation, the \<^verbatim>\<open>Right\<close> that wraps \<open>e\<close>). If \<open>release\<close> yields a \<^verbatim>\<open>Left\<close>, that \<^verbatim>\<open>Left\<close> is
    the result. If it yields a \<^verbatim>\<open>Right\<close>, the result is the outcome of \<open>use\<close>: a new \<^verbatim>\<open>Left\<close> or
    \<^verbatim>\<open>Right\<close> with the payload of \<open>e\<close>, built in the store \<open>release\<close> left.
\<close>

theorem bracket_protocol:
  "(acquire s = (Return (LeftAt r l), s1) \<longrightarrow>
      bracket acquire use release s = (Return (LeftAt r l), s1))
   \<and> (acquire s = (Return (RightAt r a), s1) \<and> use a s1 = (Return ua, s2) \<and> ua s2 = (Return e, s3)
        \<and> release a e (s3\<lparr>next_addr := Suc (next_addr s3)\<rparr>) = (Return re, s4) \<longrightarrow>
        (re s4 = (Return (LeftAt q l'), s5) \<longrightarrow>
           bracket acquire use release s = (Return (LeftAt q l'), s5))
      \<and> (re s4 = (Return (RightAt q u), s5) \<longrightarrow>
           bracket acquire use release s
             = (case e of LeftAt p el \<Rightarrow> left el s5 | RightAt p b \<Rightarrow> right b s5)))"
  by (auto simp add: bracket_def IOEither_chain_def io_chain_def io_map_def io_of_def
       IOEither_left_def IOEither_of_def IOEither_right_def bind_def ret_run right_run left_run
       split: either.splits)

text \<open>
  Four runs with steps that log their invocation: \<open>acquire\<close> fails; \<open>use\<close> fails; all
  succeed; \<open>release\<close> fails after \<open>use\<close> succeeded. The log ends at \<open>acquire\<close> in the first and
  holds \<open>release\<close> in the other three.
\<close>

theorem bracket_protocol_witness:
  "bracket (logged ''acquire'' (LeftAt 0 ''down'' :: (string, int) either))
           (\<lambda>a. ret (logged ''use'' (RightAt 1 (a + 1))))
           (\<lambda>a e. ret (logged ''release'' (RightAt 2 ())))
           \<lparr>next_addr = 3, world = []\<rparr>
     = (Return (LeftAt 0 ''down''), \<lparr>next_addr = 3, world = [''acquire'']\<rparr>)
   \<and> bracket (logged ''acquire'' (RightAt 0 (7::int)))
           (\<lambda>a. ret (logged ''use'' (LeftAt 1 ''boom'')))
           (\<lambda>a e. ret (logged ''release'' (RightAt 2 ())))
           \<lparr>next_addr = 3, world = []\<rparr>
     = (Return (LeftAt 4 ''boom''), \<lparr>next_addr = 5, world = [''acquire'', ''use'', ''release'']\<rparr>)
   \<and> bracket (logged ''acquire'' (RightAt 0 (7::int)))
           (\<lambda>a. ret (logged ''use'' (RightAt 1 (a + 1))))
           (\<lambda>a e. ret (logged ''release'' (RightAt 2 ())))
           \<lparr>next_addr = 3, world = []\<rparr>
     = (Return (RightAt 4 8), \<lparr>next_addr = 5, world = [''acquire'', ''use'', ''release'']\<rparr>)
   \<and> bracket (logged ''acquire'' (RightAt 0 (7::int)))
           (\<lambda>a. ret (logged ''use'' (RightAt 1 (a + 1))))
           (\<lambda>a e. ret (logged ''release'' (LeftAt 2 ''stuck'')))
           \<lparr>next_addr = 3, world = []\<rparr>
     = (Return (LeftAt 2 ''stuck''), \<lparr>next_addr = 4, world = [''acquire'', ''use'', ''release'']\<rparr>)"
  using
    bracket_protocol [where acquire = "logged ''acquire'' (LeftAt 0 ''down'' :: (string, int) either)"
      and use = "\<lambda>a. ret (logged ''use'' (RightAt 1 (a + 1)))"
      and release = "\<lambda>a e. ret (logged ''release'' (RightAt 2 ()))"
      and s = "\<lparr>next_addr = 3, world = []\<rparr>" and r = 0 and l = "''down''"
      and ?s1.0 = "\<lparr>next_addr = 3, world = [''acquire'']\<rparr>"]
    bracket_protocol [where acquire = "logged ''acquire'' (RightAt 0 (7::int))"
      and use = "\<lambda>a. ret (logged ''use'' (LeftAt 1 ''boom''))"
      and release = "\<lambda>a e. ret (logged ''release'' (RightAt 2 ()))"
      and s = "\<lparr>next_addr = 3, world = []\<rparr>" and r = 0 and a = 7
      and ?s1.0 = "\<lparr>next_addr = 3, world = [''acquire'']\<rparr>"
      and ua = "logged ''use'' (LeftAt 1 ''boom'')"
      and ?s2.0 = "\<lparr>next_addr = 3, world = [''acquire'']\<rparr>"
      and e = "LeftAt 1 ''boom''"
      and ?s3.0 = "\<lparr>next_addr = 3, world = [''acquire'', ''use'']\<rparr>"
      and re = "logged ''release'' (RightAt 2 ())"
      and ?s4.0 = "\<lparr>next_addr = 4, world = [''acquire'', ''use'']\<rparr>"
      and q = 2 and u = "()"
      and ?s5.0 = "\<lparr>next_addr = 4, world = [''acquire'', ''use'', ''release'']\<rparr>"]
    bracket_protocol [where acquire = "logged ''acquire'' (RightAt 0 (7::int))"
      and use = "\<lambda>a. ret (logged ''use'' (RightAt 1 (a + 1)))"
      and release = "\<lambda>a e. ret (logged ''release'' (RightAt 2 ()))"
      and s = "\<lparr>next_addr = 3, world = []\<rparr>" and r = 0 and a = 7
      and ?s1.0 = "\<lparr>next_addr = 3, world = [''acquire'']\<rparr>"
      and ua = "logged ''use'' (RightAt 1 8)"
      and ?s2.0 = "\<lparr>next_addr = 3, world = [''acquire'']\<rparr>"
      and e = "RightAt 1 8"
      and ?s3.0 = "\<lparr>next_addr = 3, world = [''acquire'', ''use'']\<rparr>"
      and re = "logged ''release'' (RightAt 2 ())"
      and ?s4.0 = "\<lparr>next_addr = 4, world = [''acquire'', ''use'']\<rparr>"
      and q = 2 and u = "()"
      and ?s5.0 = "\<lparr>next_addr = 4, world = [''acquire'', ''use'', ''release'']\<rparr>"]
    bracket_protocol [where acquire = "logged ''acquire'' (RightAt 0 (7::int))"
      and use = "\<lambda>a. ret (logged ''use'' (RightAt 1 (a + 1)))"
      and release = "\<lambda>a e. ret (logged ''release'' (LeftAt 2 ''stuck''))"
      and s = "\<lparr>next_addr = 3, world = []\<rparr>" and r = 0 and a = 7
      and ?s1.0 = "\<lparr>next_addr = 3, world = [''acquire'']\<rparr>"
      and ua = "logged ''use'' (RightAt 1 8)"
      and ?s2.0 = "\<lparr>next_addr = 3, world = [''acquire'']\<rparr>"
      and e = "RightAt 1 8"
      and ?s3.0 = "\<lparr>next_addr = 3, world = [''acquire'', ''use'']\<rparr>"
      and re = "logged ''release'' (LeftAt 2 ''stuck'')"
      and ?s4.0 = "\<lparr>next_addr = 4, world = [''acquire'', ''use'']\<rparr>"
      and q = 2 and l' = "''stuck''"
      and ?s5.0 = "\<lparr>next_addr = 4, world = [''acquire'', ''use'', ''release'']\<rparr>"]
  by (simp add: logged_def ret_run left_run right_run)

end
